theory Spec2Isabelle
  imports Complex_Main "HOL-Library.AList"
begin

section \<open>The Excel comparator (app.py): values, libraries, errors\<close>

text \<open>
  The program compares the rows of two spreadsheets. Its own code is the three helpers
  \<^verbatim>\<open>clean_date\<close>, \<^verbatim>\<open>clean_number\<close>, \<^verbatim>\<open>compare_values\<close>, the loop that builds
  \<^verbatim>\<open>col_map\<close>, the comparison loop and the loop that builds \<^verbatim>\<open>flat_results\<close>.
  Everything else is library code (Python's runtime, pandas, fuzzywuzzy); the library
  functions the program calls are the fields of the record \<open>py_lib\<close> below, and every
  definition of the program takes such a record as its first argument.

  A Python \<^verbatim>\<open>str\<close> is a \<^typ>\<open>string\<close>: one \<^typ>\<open>char\<close> per code point, for the
  code points below 256. A Python \<^verbatim>\<open>float\<close> is a value of the type parameter \<open>'f\<close>.
  A \<^verbatim>\<open>datetime.date\<close> is its proleptic Gregorian ordinal (0001-01-01 is day 1,
  9999-12-31 is day 3652059); Python has no date outside that range.
\<close>

datatype error = KeyError | TypeError | ValueError | OverflowError

text \<open>
  The scalars a cell or a normalised value can be: \<^verbatim>\<open>None\<close>, pandas' \<^verbatim>\<open>NaT\<close>,
  a string, a float (an empty spreadsheet cell is the float NaN) and a date. A cell
  holding a datetime takes part in the program only through \<^verbatim>\<open>str(val)\<close> and
  \<^verbatim>\<open>pd.isna(val)\<close>; it is represented by a \<open>PStr\<close> of its string form.
\<close>

datatype 'f pyval = PNone | PNaT | PStr string | PFloat 'f | PDate int

record timestamp =
  ts_ordinal :: int
  ts_nanos :: nat

record 'f py_lib =
  float_isnan :: "'f \<Rightarrow> bool"
  float_eq :: "'f \<Rightarrow> 'f \<Rightarrow> bool"
  float_sub :: "'f \<Rightarrow> 'f \<Rightarrow> 'f"
  float_abs :: "'f \<Rightarrow> 'f"
  float_lt :: "'f \<Rightarrow> 'f \<Rightarrow> bool"
  float_1e_6 :: "'f"
  float_of_str :: "string \<Rightarrow> error + 'f"
  str_of_float :: "'f \<Rightarrow> string"
  str_of_date :: "int \<Rightarrow> string"
  to_datetime :: "string \<Rightarrow> error + timestamp option"
  partial_ratio :: "string \<Rightarrow> string \<Rightarrow> int"

text \<open>
  \<open>float_of_str\<close> is \<^verbatim>\<open>float(s)\<close> (\<open>Inl\<close> when it raises), \<open>to_datetime\<close> is
  \<^verbatim>\<open>pd.to_datetime(s, errors="coerce")\<close> (\<open>Inl\<close> when it raises, \<open>Inr None\<close> when it
  returns \<^verbatim>\<open>NaT\<close>), \<open>partial_ratio\<close> is \<^verbatim>\<open>fuzz.partial_ratio\<close>; \<open>float_1e_6\<close> is the
  literal \<^verbatim>\<open>1e-6\<close>.
\<close>

subsection \<open>Python's own operations on these values\<close>

definition MINORDINAL :: int where
  "MINORDINAL = 1"

definition MAXORDINAL :: int where
  "MAXORDINAL = 3652059"

text \<open>The ordinal of a calendar date, as \<^verbatim>\<open>datetime.date(y, m, d).toordinal()\<close> computes it.\<close>

definition is_leap :: "int \<Rightarrow> bool" where
  "is_leap y = (y mod 4 = 0 \<and> (y mod 100 \<noteq> 0 \<or> y mod 400 = 0))"

definition days_before_year :: "int \<Rightarrow> int" where
  "days_before_year year = (let y = year - 1 in y * 365 + y div 4 - y div 100 + y div 400)"

definition days_in_month :: "int \<Rightarrow> int \<Rightarrow> int" where
  "days_in_month y m =
     (if m = 2 then (if is_leap y then 29 else 28)
      else if m = 4 \<or> m = 6 \<or> m = 9 \<or> m = 11 then 30 else 31)"

definition days_before_month :: "int \<Rightarrow> int \<Rightarrow> int" where
  "days_before_month y m = sum_list (map (days_in_month y) [1 ..< nat m])"

definition ymd2ord :: "int \<Rightarrow> int \<Rightarrow> int \<Rightarrow> int" where
  "ymd2ord y m d = days_before_year y + days_before_month y m + d"

text \<open>\<^verbatim>\<open>pd.isna(v)\<close> on a scalar.\<close>

fun isna :: "'f py_lib \<Rightarrow> 'f pyval \<Rightarrow> bool" where
  "isna L PNone = True"
| "isna L PNaT = True"
| "isna L (PFloat x) = float_isnan L x"
| "isna L (PStr s) = False"
| "isna L (PDate d) = False"

text \<open>\<^verbatim>\<open>str(v)\<close>.\<close>

fun py_str :: "'f py_lib \<Rightarrow> 'f pyval \<Rightarrow> string" where
  "py_str L PNone = ''None''"
| "py_str L PNaT = ''NaT''"
| "py_str L (PStr s) = s"
| "py_str L (PFloat x) = str_of_float L x"
| "py_str L (PDate d) = str_of_date L d"

text \<open>
  \<^verbatim>\<open>v1 == v2\<close>: values of different types are unequal, \<^verbatim>\<open>NaT\<close> is unequal to
  everything.
\<close>

fun py_eq :: "'f py_lib \<Rightarrow> 'f pyval \<Rightarrow> 'f pyval \<Rightarrow> bool" where
  "py_eq L PNone PNone = True"
| "py_eq L (PStr a) (PStr b) = (a = b)"
| "py_eq L (PFloat x) (PFloat y) = float_eq L x y"
| "py_eq L (PDate a) (PDate b) = (a = b)"
| "py_eq L _ _ = False"

text \<open>
  \<^verbatim>\<open>v + timedelta(days=n)\<close> (and \<^verbatim>\<open>v - timedelta(days=k)\<close> with \<open>n = - k\<close>): a
  date moves by \<open>n\<close> days and raises \<^verbatim>\<open>OverflowError\<close> when the result is not a date;
  \<^verbatim>\<open>None\<close>, a string and a float raise \<^verbatim>\<open>TypeError\<close>.
\<close>

fun add_days :: "'f pyval \<Rightarrow> int \<Rightarrow> error + 'f pyval" where
  "add_days (PDate d) n =
     (if MINORDINAL \<le> d + n \<and> d + n \<le> MAXORDINAL then Inr (PDate (d + n))
      else Inl OverflowError)"
| "add_days PNaT n = Inr PNaT"
| "add_days _ n = Inl TypeError"

text \<open>
  \<^verbatim>\<open>abs(v1 - v2) < 1e-6\<close>: defined on two floats. The difference of two dates is a
  \<^verbatim>\<open>timedelta\<close>, which does not compare with a float; every other pair has no \<^verbatim>\<open>-\<close>.
\<close>

fun abs_diff_lt_1e_6 :: "'f py_lib \<Rightarrow> 'f pyval \<Rightarrow> 'f pyval \<Rightarrow> error + bool" where
  "abs_diff_lt_1e_6 L (PFloat x) (PFloat y) =
     Inr (float_lt L (float_abs L (float_sub L x y)) (float_1e_6 L))"
| "abs_diff_lt_1e_6 L _ _ = Inl TypeError"

text \<open>
  \<^verbatim>\<open>str.isspace\<close>, \<^verbatim>\<open>str.strip()\<close>, \<^verbatim>\<open>str.lower()\<close> and \<^verbatim>\<open>s.replace(",", "")\<close>
  on code points below 256.
\<close>

definition isspace :: "char \<Rightarrow> bool" where
  "isspace c = (let n = (of_char c :: nat) in
     (9 \<le> n \<and> n \<le> 13) \<or> (28 \<le> n \<and> n \<le> 32) \<or> n = 133 \<or> n = 160)"

definition strip :: "string \<Rightarrow> string" where
  "strip s = rev (dropWhile isspace (rev (dropWhile isspace s)))"

definition lower_char :: "char \<Rightarrow> char" where
  "lower_char c = (let n = (of_char c :: nat) in
     if (65 \<le> n \<and> n \<le> 90) \<or> (192 \<le> n \<and> n \<le> 214) \<or> (216 \<le> n \<and> n \<le> 222)
     then char_of (n + 32) else c)"

definition lower :: "string \<Rightarrow> string" where
  "lower s = map lower_char s"

definition remove_commas :: "string \<Rightarrow> string" where
  "remove_commas s = filter (\<lambda>c. c \<noteq> CHR '','') s"

section \<open>The helper functions\<close>

text \<open>
  \<^verbatim>\<open>.date()\<close> on what \<^verbatim>\<open>pd.to_datetime\<close> returned: \<^verbatim>\<open>NaT\<close> gives \<^verbatim>\<open>NaT\<close>; a
  timestamp gives its calendar date, without the time of day, and raises
  \<^verbatim>\<open>ValueError\<close> when its day is not a date Python can represent (a year before 1 or
  after 9999).
\<close>

definition timestamp_date :: "timestamp option \<Rightarrow> error + 'f pyval" where
  "timestamp_date t =
     (case t of
        None \<Rightarrow> Inr PNaT
      | Some ts \<Rightarrow>
          if MINORDINAL \<le> ts_ordinal ts \<and> ts_ordinal ts \<le> MAXORDINAL
          then Inr (PDate (ts_ordinal ts)) else Inl ValueError)"

text \<open>
  \<^verbatim>\<open>clean_date\<close>: the body of its \<^verbatim>\<open>try\<close> is \<open>clean_date_try\<close>, where both the parse
  and \<^verbatim>\<open>.date()\<close> can raise; the bare \<^verbatim>\<open>except\<close> turns every exception into
  \<^verbatim>\<open>None\<close>.
\<close>

definition clean_date_try :: "'f py_lib \<Rightarrow> 'f pyval \<Rightarrow> error + 'f pyval" where
  "clean_date_try L val =
     (case to_datetime L (py_str L val) of
        Inl e \<Rightarrow> Inl e
      | Inr t \<Rightarrow> timestamp_date t)"

definition clean_date :: "'f py_lib \<Rightarrow> 'f pyval \<Rightarrow> error + 'f pyval" where
  "clean_date L val =
     (if isna L val then Inr PNone
      else case clean_date_try L val of Inl e \<Rightarrow> Inr PNone | Inr v \<Rightarrow> Inr v)"

text \<open>\<^verbatim>\<open>clean_number\<close>, in the same way.\<close>

definition clean_number_try :: "'f py_lib \<Rightarrow> 'f pyval \<Rightarrow> error + 'f pyval" where
  "clean_number_try L val =
     (case float_of_str L (strip (remove_commas (py_str L val))) of
        Inl e \<Rightarrow> Inl e
      | Inr x \<Rightarrow> Inr (PFloat x))"

definition clean_number :: "'f py_lib \<Rightarrow> 'f pyval \<Rightarrow> error + 'f pyval" where
  "clean_number L val =
     (if isna L val then Inr PNone
      else case clean_number_try L val of Inl e \<Rightarrow> Inr PNone | Inr v \<Rightarrow> Inr v)"

text \<open>
  \<^verbatim>\<open>compare_values\<close>. The \<^verbatim>\<open>or\<close> chain of the \<^verbatim>\<open>"Date"\<close> branch evaluates from
  the left and stops at the first true disjunct, so the sums are formed only when the
  disjuncts before them are false.
\<close>

definition compare_values ::
    "'f py_lib \<Rightarrow> 'f pyval \<Rightarrow> 'f pyval \<Rightarrow> string \<Rightarrow> bool \<Rightarrow> error + bool" where
  "compare_values L v1 v2 col_type fuzzy =
     (if isna L v1 \<or> isna L v2 then Inr False
      else if col_type = ''Date'' then
        (if py_eq L v1 v2 then Inr True
         else case add_days v2 1 of
           Inl e \<Rightarrow> Inl e
         | Inr next_day \<Rightarrow>
             if py_eq L v1 next_day then Inr True
             else (case add_days v2 (- 1) of
               Inl e \<Rightarrow> Inl e
             | Inr previous_day \<Rightarrow> Inr (py_eq L v1 previous_day)))
      else if col_type = ''Number'' then abs_diff_lt_1e_6 L v1 v2
      else if col_type = ''Text'' then
        (if fuzzy then Inr (80 \<le> partial_ratio L (lower (py_str L v1)) (lower (py_str L v2)))
         else Inr (lower (strip (py_str L v1)) = lower (strip (py_str L v2))))
      else Inr (py_str L v1 = py_str L v2))"

section \<open>The comparison run\<close>

text \<open>
  A row of a data frame (a pandas \<^verbatim>\<open>Series\<close>) lists its column labels with their
  cells; a data frame, as \<^verbatim>\<open>iterrows()\<close> walks it, is the list of its rows, numbered
  from 0 (the index that \<^verbatim>\<open>pd.read_excel\<close> gives a sheet). \<^verbatim>\<open>col_map\<close> is a dictionary in insertion order: each Left column that has a
  pairing, with the Right column, the comparison type and the fuzzy flag.
\<close>

type_synonym 'f row = "(string \<times> 'f pyval) list"

type_synonym 'f dataframe = "'f row list"

type_synonym col_map = "(string \<times> string \<times> string \<times> bool) list"

text \<open>\<^verbatim>\<open>row[col]\<close>: a label the row does not have raises \<^verbatim>\<open>KeyError\<close>.\<close>

definition getitem :: "'f row \<Rightarrow> string \<Rightarrow> error + 'f pyval" where
  "getitem row col = (case map_of row col of None \<Rightarrow> Inl KeyError | Some v \<Rightarrow> Inr v)"

text \<open>
  Lines 112 to 120: one pass of the loop over \<^verbatim>\<open>col_map.items()\<close>, for the cells
  \<open>v1\<close>, \<open>v2\<close> already read.
\<close>

definition compare_cells ::
    "'f py_lib \<Rightarrow> 'f pyval \<Rightarrow> 'f pyval \<Rightarrow> string \<Rightarrow> bool \<Rightarrow> error + bool" where
  "compare_cells L v1 v2 col_type fuzzy =
     (if col_type = ''Date'' then
        (case clean_date L v1 of Inl e \<Rightarrow> Inl e | Inr d1 \<Rightarrow>
           (case clean_date L v2 of Inl e \<Rightarrow> Inl e | Inr d2 \<Rightarrow>
              compare_values L d1 d2 col_type fuzzy))
      else if col_type = ''Number'' then
        (case clean_number L v1 of Inl e \<Rightarrow> Inl e | Inr n1 \<Rightarrow>
           (case clean_number L v2 of Inl e \<Rightarrow> Inl e | Inr n2 \<Rightarrow>
              compare_values L n1 n2 col_type fuzzy))
      else compare_values L v1 v2 col_type fuzzy)"

text \<open>
  The list \<^verbatim>\<open>comparisons\<close> for one Left row and one Right row: every pairing is
  evaluated, in the order of \<^verbatim>\<open>col_map\<close>; an exception leaves the loop.
\<close>

fun comparisons :: "'f py_lib \<Rightarrow> 'f row \<Rightarrow> 'f row \<Rightarrow> col_map \<Rightarrow> error + bool list" where
  "comparisons L row1 row2 [] = Inr []"
| "comparisons L row1 row2 ((col1, col2, col_type, fuzzy) # rest) =
     (case getitem row1 col1 of Inl e \<Rightarrow> Inl e | Inr v1 \<Rightarrow>
        (case getitem row2 col2 of Inl e \<Rightarrow> Inl e | Inr v2 \<Rightarrow>
           (case compare_cells L v1 v2 col_type fuzzy of Inl e \<Rightarrow> Inl e | Inr c \<Rightarrow>
              (case comparisons L row1 row2 rest of Inl e \<Rightarrow> Inl e | Inr cs \<Rightarrow>
                 Inr (c # cs)))))"

text \<open>\<^verbatim>\<open>all(comparisons)\<close> for one pair of rows.\<close>

definition all_matched :: "'f py_lib \<Rightarrow> 'f row \<Rightarrow> 'f row \<Rightarrow> col_map \<Rightarrow> error + bool" where
  "all_matched L row1 row2 cm =
     (case comparisons L row1 row2 cm of Inl e \<Rightarrow> Inl e | Inr cs \<Rightarrow> Inr (list_all (\<lambda>c. c) cs))"

text \<open>
  The loop over \<^verbatim>\<open>df2.iterrows()\<close> for one Left row: its value is \<^verbatim>\<open>best_match\<close>
  when the loop ends, by \<^verbatim>\<open>break\<close> or by exhaustion (\<^verbatim>\<open>match_found\<close> is true exactly
  when \<^verbatim>\<open>best_match\<close> is a row).
\<close>

fun scan_right :: "'f py_lib \<Rightarrow> 'f row \<Rightarrow> 'f dataframe \<Rightarrow> col_map \<Rightarrow> error + 'f row option" where
  "scan_right L row1 [] cm = Inr None"
| "scan_right L row1 (row2 # df2) cm =
     (case all_matched L row1 row2 cm of
        Inl e \<Rightarrow> Inl e
      | Inr True \<Rightarrow> Inr (Some row2)
      | Inr False \<Rightarrow> scan_right L row1 df2 cm)"

text \<open>
  One entry of \<^verbatim>\<open>results\<close>. \<open>Matched\<close> is \<^verbatim>\<open>match_found\<close>; the program stores it as
  one of two fixed labels, a check mark with Yes or a cross with No.
\<close>

record 'f result =
  Excel1_Index :: nat
  Excel1_Data :: "'f row"
  Matched :: bool
  Excel2_Match :: "'f row option"

text \<open>The loop over \<^verbatim>\<open>df1.iterrows()\<close>, from row number \<open>i\<close> on.\<close>

fun run_rows ::
    "'f py_lib \<Rightarrow> nat \<Rightarrow> 'f dataframe \<Rightarrow> 'f dataframe \<Rightarrow> col_map \<Rightarrow> error + 'f result list" where
  "run_rows L i [] df2 cm = Inr []"
| "run_rows L i (row1 # df1) df2 cm =
     (case scan_right L row1 df2 cm of
        Inl e \<Rightarrow> Inl e
      | Inr best_match \<Rightarrow>
          (case run_rows L (Suc i) df1 df2 cm of
             Inl e \<Rightarrow> Inl e
           | Inr results \<Rightarrow>
               Inr (\<lparr>Excel1_Index = i, Excel1_Data = row1,
                     Matched = (best_match \<noteq> None), Excel2_Match = best_match\<rparr> # results)))"

definition run_comparison ::
    "'f py_lib \<Rightarrow> 'f dataframe \<Rightarrow> 'f dataframe \<Rightarrow> col_map \<Rightarrow> error + 'f result list" where
  "run_comparison L df1 df2 cm = run_rows L 0 df1 df2 cm"

section \<open>The flat result table\<close>

text \<open>
  A value of a flat row: the row number, the matched indicator, or a cell. A flat row is
  a dictionary in insertion order; \<^verbatim>\<open>row[key] = v\<close> replaces the value of a key that is
  present and appends a key that is not, which is \<^const>\<open>AList.update\<close>.
\<close>

datatype 'f flatval = Index nat | Indicator bool | Cell "'f pyval"

definition add_columns ::
    "string \<Rightarrow> 'f row \<Rightarrow> (string \<times> 'f flatval) list \<Rightarrow> (string \<times> 'f flatval) list" where
  "add_columns prefix data row = fold (\<lambda>(k, v) r. AList.update (prefix @ k) (Cell v) r) data row"

definition flat_row :: "'f result \<Rightarrow> (string \<times> 'f flatval) list" where
  "flat_row r =
     (let row = [(''Excel1_Index'', Index (Excel1_Index r)), (''Matched'', Indicator (Matched r))];
          row = add_columns ''Excel1_'' (Excel1_Data r) row
      in case Excel2_Match r of
           None \<Rightarrow> row
         | Some m \<Rightarrow> if m = [] then row else add_columns ''Excel2_'' m row)"

definition flat_results :: "'f result list \<Rightarrow> (string \<times> 'f flatval) list list" where
  "flat_results results = map flat_row results"

section \<open>Building the column mapping\<close>

text \<open>
  Lines 83 to 100. The three widgets are inputs of the program: \<open>selectbox col options\<close>
  is the option picked for the Left column \<open>col\<close>, \<open>radio col\<close> the comparison type picked
  for it, \<open>checkbox col\<close> its fuzzy box. \<^verbatim>\<open>col_map[col] = ...\<close> is again
  \<^const>\<open>AList.update\<close>.
\<close>

record widgets =
  selectbox :: "string \<Rightarrow> string list \<Rightarrow> string"
  radio :: "string \<Rightarrow> string"
  checkbox :: "string \<Rightarrow> bool"

definition col_map_step :: "widgets \<Rightarrow> string list \<Rightarrow> string \<Rightarrow> col_map \<Rightarrow> col_map" where
  "col_map_step W columns2 col cm =
     (let match = selectbox W col (''-- None --'' # columns2) in
      if match \<noteq> ''-- None --'' then
        (let col_type = radio W col;
             fuzzy = (if col_type = ''Text'' then checkbox W col else False)
         in AList.update col (match, col_type, fuzzy) cm)
      else cm)"

definition build_col_map :: "widgets \<Rightarrow> string list \<Rightarrow> string list \<Rightarrow> col_map" where
  "build_col_map W columns1 columns2 = fold (col_map_step W columns2) columns1 []"

section \<open>A library instance for concrete tables\<close>

text \<open>
  To evaluate the definitions on concrete tables the library record is instantiated by
  \<open>sample_lib\<close>: floats are the rationals with a NaN (\<open>None\<close>), \<^verbatim>\<open>float\<close> reads
  unsigned decimal integers and \<^verbatim>\<open>nan\<close>, \<^verbatim>\<open>to_datetime\<close> reads dates written
  \<^verbatim>\<open>YYYY-MM-DD\<close> in the years 1678 to 2261 (years that pandas' nanosecond timestamps
  cover in full) and returns \<^verbatim>\<open>NaT\<close> on everything else, and the similarity score
  is 100 on equal strings and 0 otherwise. It stands for the libraries in the examples
  only; no general statement below is about it.
\<close>

definition isdigit :: "char \<Rightarrow> bool" where
  "isdigit c = (48 \<le> (of_char c :: nat) \<and> (of_char c :: nat) \<le> 57)"

definition nat_of_digits :: "string \<Rightarrow> nat" where
  "nat_of_digits s = foldl (\<lambda>n c. 10 * n + (of_char c - 48)) 0 s"

definition sample_float_of_str :: "string \<Rightarrow> error + rat option" where
  "sample_float_of_str s =
     (if s = ''nan'' then Inr None
      else if s \<noteq> [] \<and> list_all isdigit s then Inr (Some (of_nat (nat_of_digits s)))
      else Inl ValueError)"

definition sample_to_datetime :: "string \<Rightarrow> error + timestamp option" where
  "sample_to_datetime s =
     (if length s = 10 \<and> s ! 4 = CHR ''-'' \<and> s ! 7 = CHR ''-''
         \<and> list_all isdigit (take 4 s @ take 2 (drop 5 s) @ drop 8 s) then
        (let y = int (nat_of_digits (take 4 s));
             m = int (nat_of_digits (take 2 (drop 5 s)));
             d = int (nat_of_digits (drop 8 s))
         in if 1678 \<le> y \<and> y \<le> 2261 \<and> 1 \<le> m \<and> m \<le> 12 \<and> 1 \<le> d \<and> d \<le> days_in_month y m
            then Inr (Some \<lparr>ts_ordinal = ymd2ord y m d, ts_nanos = 0\<rparr>)
            else Inr None)
      else Inr None)"

definition sample_lib :: "rat option py_lib" where
  "sample_lib =
     \<lparr>float_isnan = (\<lambda>x. x = None),
      float_eq = (\<lambda>x y. x \<noteq> None \<and> x = y),
      float_sub = (\<lambda>x y. case (x, y) of (Some a, Some b) \<Rightarrow> Some (a - b) | _ \<Rightarrow> None),
      float_abs = map_option abs,
      float_lt = (\<lambda>x y. case (x, y) of (Some a, Some b) \<Rightarrow> a < b | _ \<Rightarrow> False),
      float_1e_6 = Some (1 / 1000000),
      float_of_str = sample_float_of_str,
      str_of_float = (\<lambda>x. ''float''),
      str_of_date = (\<lambda>d. ''date''),
      to_datetime = sample_to_datetime,
      partial_ratio = (\<lambda>a b. if a = b then 100 else 0)\<rparr>"

text \<open>
  \<open>wide_lib\<close> is \<open>sample_lib\<close> with a \<^verbatim>\<open>to_datetime\<close> that reads the same form in every
  year from 0 to 9999, as a pandas whose timestamps are not held to nanosecond
  resolution does.
\<close>

definition wide_to_datetime :: "string \<Rightarrow> error + timestamp option" where
  "wide_to_datetime s =
     (if length s = 10 \<and> s ! 4 = CHR ''-'' \<and> s ! 7 = CHR ''-''
         \<and> list_all isdigit (take 4 s @ take 2 (drop 5 s) @ drop 8 s) then
        (let y = int (nat_of_digits (take 4 s));
             m = int (nat_of_digits (take 2 (drop 5 s)));
             d = int (nat_of_digits (drop 8 s))
         in if 1 \<le> m \<and> m \<le> 12 \<and> 1 \<le> d \<and> d \<le> days_in_month y m
            then Inr (Some \<lparr>ts_ordinal = ymd2ord y m d, ts_nanos = 0\<rparr>)
            else Inr None)
      else Inr None)"

definition wide_lib :: "rat option py_lib" where
  "wide_lib = sample_lib\<lparr>to_datetime := wide_to_datetime\<rparr>"

section \<open>Notions used in the statements\<close>




text \<open>
  \<open>no_date L val\<close>: the library gives no calendar date for the cell: the parse raises, or
  returns \<^verbatim>\<open>NaT\<close>, or returns a timestamp whose day Python cannot represent.
\<close>

definition no_date :: "'f py_lib \<Rightarrow> 'f pyval \<Rightarrow> bool" where
  "no_date L val =
     (case to_datetime L (py_str L val) of
        Inl e \<Rightarrow> True
      | Inr None \<Rightarrow> True
      | Inr (Some ts) \<Rightarrow> ts_ordinal ts < MINORDINAL \<or> MAXORDINAL < ts_ordinal ts)"

text \<open>
  \<open>trimmed s t\<close>: \<open>t\<close> is \<open>s\<close> without its leading and trailing whitespace, said without
  reference to how \<open>strip\<close> computes it.
\<close>

definition trimmed :: "string \<Rightarrow> string \<Rightarrow> bool" where
  "trimmed s t = ((\<exists>pre post. s = pre @ t @ post \<and> list_all isspace pre \<and> list_all isspace post)
      \<and> (t = [] \<or> (\<not> isspace (hd t) \<and> \<not> isspace (last t))))"

text \<open>
  \<open>dates_interior L\<close>: every timestamp the library returns lies strictly between the first
  and the last date Python can represent. pandas' nanosecond timestamps (1677-09-21 to
  2262-04-11) do.
\<close>

definition dates_interior :: "'f py_lib \<Rightarrow> bool" where
  "dates_interior L = (\<forall>s ts. to_datetime L s = Inr (Some ts) \<longrightarrow>
      MINORDINAL < ts_ordinal ts \<and> ts_ordinal ts < MAXORDINAL)"

text \<open>
  \<open>columns_ok df1 df2 cm\<close>: every pairing of \<open>cm\<close> names a column of the Left rows and a
  column of the Right rows.
\<close>

definition pairing_ok :: "'f row \<Rightarrow> 'f row \<Rightarrow> string \<times> string \<times> string \<times> bool \<Rightarrow> bool" where
  "pairing_ok row1 row2 p = (fst p \<in> fst ` set row1 \<and> fst (snd p) \<in> fst ` set row2)"

definition columns_ok :: "'f dataframe \<Rightarrow> 'f dataframe \<Rightarrow> col_map \<Rightarrow> bool" where
  "columns_ok df1 df2 cm =
     (\<forall>row1 \<in> set df1. \<forall>row2 \<in> set df2. \<forall>p \<in> set cm. pairing_ok row1 row2 p)"

text \<open>The entry of \<^verbatim>\<open>results\<close> for Left row number \<open>i\<close> with the given \<^verbatim>\<open>best_match\<close>.\<close>

definition entry :: "nat \<Rightarrow> 'f row \<Rightarrow> 'f row option \<Rightarrow> 'f result" where
  "entry i row1 best_match =
     \<lparr>Excel1_Index = i, Excel1_Data = row1, Matched = (best_match \<noteq> None), Excel2_Match = best_match\<rparr>"

text \<open>
  \<open>widgets_ok W\<close>: a select box returns one of the options it was given.
  \<open>pairing_within columns1 columns2 p\<close>: the pairing \<open>p\<close> names a column of each list.
\<close>

definition widgets_ok :: "widgets \<Rightarrow> bool" where
  "widgets_ok W = (\<forall>col options. options \<noteq> [] \<longrightarrow> selectbox W col options \<in> set options)"

definition pairing_within :: "string list \<Rightarrow> string list \<Rightarrow> string \<times> string \<times> string \<times> bool \<Rightarrow> bool" where
  "pairing_within columns1 columns2 p = (fst p \<in> set columns1 \<and> fst (snd p) \<in> set columns2)"

section \<open>Example tables\<close>

text \<open>
  Two small tables and a mapping of a text column and a date column, used to evaluate the
  statements below on concrete rows. The rows \<open>r0\<close>, \<open>r1\<close>, \<open>r2\<close> are those of
  \<open>right_example\<close>, \<open>bob\<close> is the first row of \<open>left_example\<close>.
\<close>

definition left_example :: "rat option dataframe" where
  "left_example =
     [[(''name'', PStr ''Bob''), (''day'', PStr ''2025-09-02'')],
      [(''name'', PStr ''Eve''), (''day'', PStr ''2025-09-09'')]]"

definition right_example :: "rat option dataframe" where
  "right_example =
     [[(''who'', PStr ''Al''), (''date'', PStr ''2025-09-02'')],
      [(''who'', PStr '' bob ''), (''date'', PStr ''2025-09-03'')],
      [(''who'', PStr ''BOB''), (''date'', PStr ''2025-09-01'')]]"

definition mapping_example :: col_map where
  "mapping_example = [(''name'', ''who'', ''Text'', False), (''day'', ''date'', ''Date'', False)]"

definition bob :: "rat option row" where
  "bob = [(''name'', PStr ''Bob''), (''day'', PStr ''2025-09-02'')]"

definition r0 :: "rat option row" where
  "r0 = [(''who'', PStr ''Al''), (''date'', PStr ''2025-09-02'')]"

definition r1 :: "rat option row" where
  "r1 = [(''who'', PStr '' bob ''), (''date'', PStr ''2025-09-03'')]"

definition r2 :: "rat option row" where
  "r2 = [(''who'', PStr ''BOB''), (''date'', PStr ''2025-09-01'')]"


text \<open>A choice of the widgets: the Left column \<open>name\<close> is paired with \<open>who\<close>, as text.\<close>

definition widgets_example :: widgets where
  "widgets_example =
     \<lparr>selectbox = (\<lambda>col options. if col = ''name'' \<and> ''who'' \<in> set options then ''who'' else hd options),
      radio = (\<lambda>col. ''Text''),
      checkbox = (\<lambda>col. False)\<rparr>"

section \<open>Lemmas\<close>

subsection \<open>Dates\<close>

lemma ymd2ord_max: "ymd2ord 9999 12 31 = MAXORDINAL"
  by (simp add: ymd2ord_def days_before_year_def days_before_month_def days_in_month_def
      MAXORDINAL_def is_leap_def upt_rec)

lemma ymd2ord_min: "ymd2ord 1 1 1 = MINORDINAL"
  by (simp add: ymd2ord_def days_before_year_def days_before_month_def MINORDINAL_def)

subsection \<open>Strings\<close>

lemma strip_decompose:
  "\<exists>pre post. s = pre @ strip s @ post \<and> list_all isspace pre \<and> list_all isspace post"
proof -
  let ?m = "dropWhile isspace s"
  have 1: "s = takeWhile isspace s @ ?m" by simp
  have 2: "rev ?m = takeWhile isspace (rev ?m) @ dropWhile isspace (rev ?m)" by simp
  have "?m = rev (dropWhile isspace (rev ?m)) @ rev (takeWhile isspace (rev ?m))"
    using 2 by (metis rev_append rev_rev_ident)
  then have "s = takeWhile isspace s @ strip s @ rev (takeWhile isspace (rev ?m))"
    using 1 by (simp add: strip_def)
  moreover have "list_all isspace (takeWhile isspace s)"
    by (simp add: list_all_iff) (meson set_takeWhileD)
  moreover have "list_all isspace (rev (takeWhile isspace (rev ?m)))"
    by (simp add: list_all_iff) (meson set_takeWhileD)
  ultimately show ?thesis by blast
qed

lemma hd_dropWhile_end:
  assumes "xs \<noteq> []" "\<not> P (hd xs)"
  shows "rev (dropWhile P (rev xs)) \<noteq> [] \<and> hd (rev (dropWhile P (rev xs))) = hd xs"
proof -
  from assms obtain x ys where xs: "xs = x # ys" and x: "\<not> P x" by (cases xs) auto
  have "dropWhile P (rev ys @ [x]) = dropWhile P (rev ys) @ [x]"
    using x by (rule dropWhile_append3)
  then have "rev (dropWhile P (rev xs)) = x # rev (dropWhile P (rev ys))"
    by (simp add: xs)
  then show ?thesis by (simp add: xs)
qed

lemma strip_ends:
  "strip s = [] \<or> (\<not> isspace (hd (strip s)) \<and> \<not> isspace (last (strip s)))"
proof (cases "dropWhile isspace s = []")
  case True
  then have "strip s = []" unfolding strip_def by (metis dropWhile.simps(1) rev.simps(1))
  then show ?thesis ..
next
  case False
  let ?m = "dropWhile isspace s"
  let ?r = "dropWhile isspace (rev ?m)"
  have h: "\<not> isspace (hd ?m)" using False by (rule hd_dropWhile)
  from hd_dropWhile_end[of "dropWhile isspace s" isspace, OF False h]
  have ne: "strip s \<noteq> []" and hd: "hd (strip s) = hd ?m" unfolding strip_def by blast+
  from ne have r: "?r \<noteq> []" unfolding strip_def by (metis rev.simps(1))
  have "\<not> isspace (hd ?r)" using r by (rule hd_dropWhile)
  moreover have "last (strip s) = hd ?r" unfolding strip_def by (rule last_rev)
  ultimately show ?thesis using h hd by (simp only:) blast
qed

lemma trimmed_strip: "trimmed s (strip s)"
  unfolding trimmed_def using strip_decompose strip_ends by blast


lemma remove_commas_no_comma: "CHR '','' \<notin> set (remove_commas s)"
  by (simp add: remove_commas_def)

lemma strip_subset: "set (strip s) \<subseteq> set s"
  using strip_decompose[of s] by (metis Un_upper1 Un_upper2 set_append subset_trans)

subsection \<open>The helpers\<close>

lemma clean_date_cases:
  "clean_date L v = Inr PNone \<or> clean_date L v = Inr PNaT
     \<or> (\<exists>ts. to_datetime L (py_str L v) = Inr (Some ts)
           \<and> MINORDINAL \<le> ts_ordinal ts \<and> ts_ordinal ts \<le> MAXORDINAL
           \<and> clean_date L v = Inr (PDate (ts_ordinal ts)))"
  by (auto simp: clean_date_def clean_date_try_def timestamp_date_def
      split: sum.splits option.splits)

lemma clean_number_cases:
  "clean_number L v = Inr PNone \<or> (\<exists>x. clean_number L v = Inr (PFloat x))"
  by (auto simp: clean_number_def clean_number_try_def split: sum.splits)

lemma compare_values_na:
  "isna L v1 \<or> isna L v2 \<Longrightarrow> compare_values L v1 v2 col_type fuzzy = Inr False"
  by (simp add: compare_values_def)

lemma compare_values_date_interior:
  assumes "MINORDINAL < d2" "d2 < MAXORDINAL"
  shows "compare_values L (PDate d1) (PDate d2) ''Date'' fuzzy
           = Inr (d1 = d2 \<or> d1 = d2 + 1 \<or> d1 = d2 - 1)"
  using assms by (auto simp: compare_values_def)

lemma compare_values_number_floats:
  "\<exists>b. compare_values L (PFloat x) (PFloat y) ''Number'' fuzzy = Inr b"
  by (auto simp: compare_values_def)

lemma compare_values_other_total:
  assumes "col_type \<noteq> ''Date''" "col_type \<noteq> ''Number''"
  shows "\<exists>b. compare_values L v1 v2 col_type fuzzy = Inr b"
  using assms by (auto simp: compare_values_def)

lemma compare_cells_total:
  assumes "dates_interior L"
  shows "\<exists>b. compare_cells L v1 v2 col_type fuzzy = Inr b"
proof -
  consider (d) "col_type = ''Date''" | (n) "col_type = ''Number''"
    | (o) "col_type \<noteq> ''Date''" "col_type \<noteq> ''Number''" by blast
  then show ?thesis
  proof cases
    case d
    obtain a where a: "clean_date L v1 = Inr a" using clean_date_cases[of L v1] by blast
    have cc: "compare_cells L v1 v2 col_type fuzzy
         = (case clean_date L v2 of Inl e \<Rightarrow> Inl e | Inr d2 \<Rightarrow> compare_values L a d2 ''Date'' fuzzy)"
      by (simp add: compare_cells_def d a)
    from clean_date_cases[of L v2] show ?thesis
    proof (elim disjE exE conjE)
      assume "clean_date L v2 = Inr PNone"
      then show ?thesis by (auto simp: cc compare_values_na)
    next
      assume "clean_date L v2 = Inr PNaT"
      then show ?thesis by (auto simp: cc compare_values_na)
    next
      fix ts assume t: "to_datetime L (py_str L v2) = Inr (Some ts)"
        and c: "clean_date L v2 = Inr (PDate (ts_ordinal ts))"
      from assms t have i: "MINORDINAL < ts_ordinal ts" "ts_ordinal ts < MAXORDINAL"
        unfolding dates_interior_def by blast+
      from clean_date_cases[of L v1] a
      consider "isna L a" | d1 where "a = PDate d1" by auto
      then show ?thesis
      proof cases
        case 1
        then show ?thesis by (auto simp: cc c compare_values_na)
      next
        case 2
        then show ?thesis by (auto simp: cc c compare_values_date_interior[OF i])
      qed
    qed
  next
    case n
    from clean_number_cases[of L v1] clean_number_cases[of L v2]
    consider "clean_number L v1 = Inr PNone" | "clean_number L v2 = Inr PNone"
      | x y where "clean_number L v1 = Inr (PFloat x)" "clean_number L v2 = Inr (PFloat y)"
      by blast
    then show ?thesis
    proof cases
      case 1
      obtain b where "clean_number L v2 = Inr b" using clean_number_cases[of L v2] by blast
      then show ?thesis using 1 by (auto simp: compare_cells_def n compare_values_na)
    next
      case 2
      obtain b where "clean_number L v1 = Inr b" using clean_number_cases[of L v1] by blast
      then show ?thesis using 2 by (auto simp: compare_cells_def n compare_values_na)
    next
      case 3
      then show ?thesis using compare_values_number_floats[of L x y fuzzy]
        by (simp add: compare_cells_def n)
    qed
  next
    case o
    then show ?thesis using compare_values_other_total[OF o] by (simp add: compare_cells_def)
  qed
qed

subsection \<open>The comparison run\<close>

lemma getitem_present: "col \<in> fst ` set row \<Longrightarrow> \<exists>v. getitem row col = Inr v"
proof -
  assume "col \<in> fst ` set row"
  then have "map_of row col \<noteq> None" by (simp add: map_of_eq_None_iff)
  then obtain v where "map_of row col = Some v" by blast
  then show ?thesis by (simp add: getitem_def)
qed

lemma getitem_absent: "col \<notin> fst ` set row \<Longrightarrow> getitem row col = Inl KeyError"
proof -
  assume "col \<notin> fst ` set row"
  then have "map_of row col = None" by (simp add: map_of_eq_None_iff)
  then show ?thesis by (simp add: getitem_def)
qed

lemma comparisons_total:
  assumes "dates_interior L" and "\<forall>p \<in> set cm. pairing_ok row1 row2 p"
  shows "\<exists>cs. comparisons L row1 row2 cm = Inr cs"
  using assms(2)
proof (induction cm)
  case Nil
  then show ?case by simp
next
  case (Cons p cm)
  obtain col1 col2 col_type fuzzy where p: "p = (col1, col2, col_type, fuzzy)" by (cases p) auto
  have "pairing_ok row1 row2 p" using Cons.prems by simp
  then have "col1 \<in> fst ` set row1" "col2 \<in> fst ` set row2" by (simp_all add: pairing_ok_def p)
  then obtain v1 v2 where v: "getitem row1 col1 = Inr v1" "getitem row2 col2 = Inr v2"
    using getitem_present by blast
  obtain c where c: "compare_cells L v1 v2 col_type fuzzy = Inr c"
    using compare_cells_total[OF assms(1)] by blast
  have "\<forall>p \<in> set cm. pairing_ok row1 row2 p" using Cons.prems by simp
  then obtain cs where cs: "comparisons L row1 row2 cm = Inr cs" using Cons.IH by blast
  show ?case by (simp add: p v c cs)
qed

lemma all_matched_total:
  assumes "dates_interior L" and "\<forall>p \<in> set cm. pairing_ok row1 row2 p"
  shows "\<exists>b. all_matched L row1 row2 cm = Inr b"
proof -
  obtain cs where "comparisons L row1 row2 cm = Inr cs" using comparisons_total[OF assms] by blast
  then show ?thesis by (simp add: all_matched_def)
qed

lemma scan_right_total:
  assumes "dates_interior L" and "\<forall>row2 \<in> set df2. \<forall>p \<in> set cm. pairing_ok row1 row2 p"
  shows "\<exists>m. scan_right L row1 df2 cm = Inr m"
  using assms(2)
proof (induction df2)
  case Nil
  then show ?case by simp
next
  case (Cons row2 df2)
  have "\<forall>p \<in> set cm. pairing_ok row1 row2 p" using Cons.prems by simp
  from all_matched_total[OF assms(1) this] obtain b where b: "all_matched L row1 row2 cm = Inr b" by blast
  have "\<forall>row2 \<in> set df2. \<forall>p \<in> set cm. pairing_ok row1 row2 p" using Cons.prems by simp
  then obtain m where m: "scan_right L row1 df2 cm = Inr m" using Cons.IH by blast
  show ?case by (cases b) (simp_all add: b m)
qed

lemma run_rows_total:
  assumes "dates_interior L" and "columns_ok df1 df2 cm"
  shows "\<exists>results. run_rows L i df1 df2 cm = Inr results"
  using assms(2)
proof (induction df1 arbitrary: i)
  case Nil
  then show ?case by simp
next
  case (Cons row1 df1)
  have "\<forall>row2 \<in> set df2. \<forall>p \<in> set cm. pairing_ok row1 row2 p"
    using Cons.prems by (simp add: columns_ok_def)
  from scan_right_total[OF assms(1) this] obtain m where m: "scan_right L row1 df2 cm = Inr m" by blast
  have "columns_ok df1 df2 cm" using Cons.prems by (simp add: columns_ok_def)
  from Cons.IH[OF this] obtain rs where rs: "run_rows L (Suc i) df1 df2 cm = Inr rs" by blast
  show ?case by (simp add: m rs)
qed

lemma run_rows_Cons_Inr:
  assumes "run_rows L i (row1 # df1) df2 cm = Inr results"
  obtains m rs where "scan_right L row1 df2 cm = Inr m" "run_rows L (Suc i) df1 df2 cm = Inr rs"
    "results = entry i row1 m # rs"
proof (cases "scan_right L row1 df2 cm")
  case (Inl e)
  with assms show ?thesis by simp
next
  case (Inr m)
  show ?thesis
  proof (cases "run_rows L (Suc i) df1 df2 cm")
    case (Inl e)
    with assms Inr show ?thesis by simp
  next
    case r: (Inr rs)
    with assms Inr have "results = entry i row1 m # rs" by (simp add: entry_def)
    with Inr r that show ?thesis by blast
  qed
qed

lemma run_rows_length:
  "run_rows L i df1 df2 cm = Inr results \<Longrightarrow> length results = length df1"
proof (induction df1 arbitrary: i results)
  case Nil
  then show ?case by simp
next
  case (Cons row1 df1)
  from Cons.prems obtain m rs where rs: "run_rows L (Suc i) df1 df2 cm = Inr rs"
    and res: "results = entry i row1 m # rs" by (rule run_rows_Cons_Inr)
  from Cons.IH[OF rs] res show ?case by simp
qed

lemma run_rows_nth:
  "run_rows L i df1 df2 cm = Inr results \<Longrightarrow> k < length df1 \<Longrightarrow>
     \<exists>m. scan_right L (df1 ! k) df2 cm = Inr m \<and> results ! k = entry (i + k) (df1 ! k) m"
proof (induction df1 arbitrary: i results k)
  case Nil
  then show ?case by simp
next
  case (Cons row1 df1)
  from Cons.prems(1) obtain m rs where m: "scan_right L row1 df2 cm = Inr m"
    and rs: "run_rows L (Suc i) df1 df2 cm = Inr rs"
    and res: "results = entry i row1 m # rs" by (rule run_rows_Cons_Inr)
  show ?case
  proof (cases k)
    case 0
    then show ?thesis using m res by simp
  next
    case (Suc j)
    then have "j < length df1" using Cons.prems(2) by simp
    from Cons.IH[OF rs this] show ?thesis using res Suc by simp
  qed
qed

lemma scan_right_Cons_False:
  "all_matched L row1 r cm = Inr False \<Longrightarrow> scan_right L row1 (r # df2) cm = scan_right L row1 df2 cm"
  by simp

lemma scan_right_Cons_True:
  "all_matched L row1 r cm = Inr True \<Longrightarrow> scan_right L row1 (r # df2) cm = Inr (Some r)"
  by simp

lemma scan_right_Cons_Inl:
  "all_matched L row1 r cm = Inl e \<Longrightarrow> scan_right L row1 (r # df2) cm = Inl e"
  by simp




lemma scan_right_none:
  "scan_right L row1 df2 cm = Inr None \<longleftrightarrow> (\<forall>r \<in> set df2. all_matched L row1 r cm = Inr False)"
proof (induction df2)
  case Nil
  then show ?case by simp
next
  case (Cons r df2)
  show ?case
  proof (cases "all_matched L row1 r cm")
    case (Inl e)
    then show ?thesis by simp
  next
    case (Inr b)
    then show ?thesis using Cons.IH by (cases b) simp_all
  qed
qed

subsection \<open>The library instance and the example tables\<close>

lemma days_in_month_bounds: "0 \<le> days_in_month y m \<and> days_in_month y m \<le> 31"
  by (simp add: days_in_month_def)

lemma sum_list_bounds:
  assumes "\<And>x. 0 \<le> f x \<and> f x \<le> (c::int)"
  shows "0 \<le> sum_list (map f xs) \<and> sum_list (map f xs) \<le> int (length xs) * c"
proof (induction xs)
  case Nil
  then show ?case by simp
next
  case (Cons x xs)
  have "0 \<le> f x" "f x \<le> c" using assms by blast+
  then show ?case using Cons by (simp add: algebra_simps)
qed

lemma days_before_month_bounds:
  assumes "1 \<le> m" "m \<le> 12"
  shows "0 \<le> days_before_month y m \<and> days_before_month y m \<le> 341"
proof -
  let ?xs = "map int [1 ..< nat m]"
  have l: "int (length ?xs) \<le> 11" using assms by simp
  have s: "0 \<le> sum_list (map (days_in_month y) ?xs)
      \<and> sum_list (map (days_in_month y) ?xs) \<le> int (length ?xs) * 31"
    by (rule sum_list_bounds) (rule days_in_month_bounds)
  have "int (length ?xs) * 31 \<le> 11 * 31" using l by (rule mult_right_mono) simp
  then have "sum_list (map (days_in_month y) ?xs) \<le> 341" using s by linarith
  then show ?thesis using s by (simp add: days_before_month_def)
qed

lemma days_before_year_bounds:
  assumes "1678 \<le> y" "y \<le> 2261"
  shows "600000 \<le> days_before_year y \<and> days_before_year y \<le> 830000"
proof -
  let ?z = "y - 1"
  have a: "0 \<le> ?z div 4" "?z div 4 \<le> 600" using assms by linarith+
  have b: "0 \<le> ?z div 100" "?z div 100 \<le> 30" using assms by linarith+
  have c: "0 \<le> ?z div 400" "?z div 400 \<le> 10" using assms by linarith+
  show ?thesis using assms a b c by (simp add: days_before_year_def Let_def)
qed

lemma ymd2ord_interior:
  assumes "1678 \<le> y" "y \<le> 2261" "1 \<le> m" "m \<le> 12" "1 \<le> d" "d \<le> days_in_month y m"
  shows "MINORDINAL < ymd2ord y m d \<and> ymd2ord y m d < MAXORDINAL"
proof -
  have "d \<le> 31" using assms(6) days_in_month_bounds[of y m] by linarith
  then show ?thesis
    using days_before_year_bounds[OF assms(1,2)] days_before_month_bounds[OF assms(3,4), of y] assms(5)
    by (simp add: ymd2ord_def MINORDINAL_def MAXORDINAL_def)
qed

lemma sample_to_datetime_interior:
  assumes "sample_to_datetime s = Inr (Some ts)"
  shows "MINORDINAL < ts_ordinal ts \<and> ts_ordinal ts < MAXORDINAL"
proof -
  let ?y = "int (nat_of_digits (take 4 s))"
  let ?m = "int (nat_of_digits (take 2 (drop 5 s)))"
  let ?d = "int (nat_of_digits (drop 8 s))"
  have c: "1678 \<le> ?y \<and> ?y \<le> 2261 \<and> 1 \<le> ?m \<and> ?m \<le> 12 \<and> 1 \<le> ?d \<and> ?d \<le> days_in_month ?y ?m"
    using assms unfolding sample_to_datetime_def Let_def by (metis Inr_inject option.distinct(1))
  then have "sample_to_datetime s = Inr (Some \<lparr>ts_ordinal = ymd2ord ?y ?m ?d, ts_nanos = 0\<rparr>)"
    using assms unfolding sample_to_datetime_def Let_def by (metis Inr_inject option.distinct(1))
  then have t: "ts_ordinal ts = ymd2ord ?y ?m ?d" using assms by simp
  show ?thesis unfolding t using c by (intro ymd2ord_interior) blast+
qed

lemma sample_lib_dates_interior: "dates_interior sample_lib"
  unfolding dates_interior_def
  using sample_to_datetime_interior by (simp add: sample_lib_def)

lemma columns_ok_example: "columns_ok left_example right_example mapping_example"
  by (simp add: columns_ok_def pairing_ok_def left_example_def right_example_def mapping_example_def)

lemma run_example:
  "run_comparison sample_lib left_example right_example mapping_example
     = Inr [entry 0 (left_example ! 0) (Some (right_example ! 1)), entry 1 (left_example ! 1) None]"
  by code_simp


subsection \<open>Runs with an empty mapping or an empty Right table\<close>

lemma run_rows_empty_mapping:
  "run_rows L i df1 (row0 # df2) [] = Inr (map (\<lambda>(k, row1). entry k row1 (Some row0)) (enumerate i df1))"
  by (induction df1 arbitrary: i) (simp_all add: all_matched_def entry_def)

lemma run_rows_empty_right:
  "run_rows L i df1 [] cm = Inr (map (\<lambda>(k, row1). entry k row1 None) (enumerate i df1))"
  by (induction df1 arbitrary: i) (simp_all add: entry_def)

lemma empty_right_nothing_matches:
  "run_comparison L df1 [] cm = Inr (map (\<lambda>(i, row1). entry i row1 None) (enumerate 0 df1))"
  by (simp add: run_comparison_def run_rows_empty_right)

subsection \<open>Normalising and comparing cells\<close>

lemma clean_number_not_missing:
  "\<not> isna L val \<Longrightarrow> clean_number L val =
     (case float_of_str L (strip (remove_commas (py_str L val))) of
        Inl e \<Rightarrow> Inr PNone | Inr x \<Rightarrow> Inr (PFloat x))"
  by (simp add: clean_number_def clean_number_try_def split: sum.splits)

lemma number_text_clean:
  "CHR '','' \<notin> set (strip (remove_commas s)) \<and> trimmed (remove_commas s) (strip (remove_commas s))"
  using strip_subset[of "remove_commas s"] remove_commas_no_comma[of s] trimmed_strip by blast

lemma number_text_example: "strip (remove_commas ''500,00'') = ''50000''"
  by (simp add: strip_def remove_commas_def isspace_def)





lemma compare_cells_date_na:
  assumes "clean_date L val = Inr v" "isna L v"
  shows "compare_cells L val other ''Date'' fuzzy = Inr False"
    and "compare_cells L other val ''Date'' fuzzy = Inr False"
proof -
  obtain w where w: "clean_date L other = Inr w" using clean_date_cases[of L other] by blast
  show "compare_cells L val other ''Date'' fuzzy = Inr False"
    using assms w by (simp add: compare_cells_def compare_values_na)
  show "compare_cells L other val ''Date'' fuzzy = Inr False"
    using assms w by (simp add: compare_cells_def compare_values_na)
qed

lemma compare_cells_number_na:
  assumes "clean_number L val = Inr v" "isna L v"
  shows "compare_cells L val other ''Number'' fuzzy = Inr False"
    and "compare_cells L other val ''Number'' fuzzy = Inr False"
proof -
  obtain w where w: "clean_number L other = Inr w" using clean_number_cases[of L other] by blast
  show "compare_cells L val other ''Number'' fuzzy = Inr False"
    using assms w by (simp add: compare_cells_def compare_values_na)
  show "compare_cells L other val ''Number'' fuzzy = Inr False"
    using assms w by (simp add: compare_cells_def compare_values_na)
qed

subsection \<open>The column mapping\<close>

lemma set_update_subset: "set (AList.update k v al) \<subseteq> insert (k, v) (set al)"
  by (induction al) auto

lemma col_map_step_within:
  assumes "widgets_ok W" "col \<in> set columns1" "\<forall>p \<in> set cm. pairing_within columns1 columns2 p"
  shows "\<forall>p \<in> set (col_map_step W columns2 col cm). pairing_within columns1 columns2 p"
proof (cases "selectbox W col (''-- None --'' # columns2) = ''-- None --''")
  case True
  then show ?thesis using assms(3) by (simp add: col_map_step_def)
next
  case False
  let ?m = "selectbox W col (''-- None --'' # columns2)"
  have "?m \<in> set (''-- None --'' # columns2)" using assms(1) unfolding widgets_ok_def by blast
  then have m: "?m \<in> set columns2" using False by simp
  obtain v where v: "col_map_step W columns2 col cm = AList.update col (?m, v) cm"
    using False by (simp add: col_map_step_def Let_def)
  have "set (AList.update col (?m, v) cm) \<subseteq> insert (col, ?m, v) (set cm)"
    by (rule set_update_subset)
  moreover have "pairing_within columns1 columns2 (col, ?m, v)"
    using assms(2) m by (simp add: pairing_within_def)
  ultimately show ?thesis using assms(3) unfolding v by blast
qed

lemma fold_col_map_step_within:
  assumes "widgets_ok W" "set cols \<subseteq> set columns1" "\<forall>p \<in> set cm. pairing_within columns1 columns2 p"
  shows "\<forall>p \<in> set (fold (col_map_step W columns2) cols cm). pairing_within columns1 columns2 p"
  using assms(2,3)
proof (induction cols arbitrary: cm)
  case Nil
  then show ?case by simp
next
  case (Cons col cols)
  have "col \<in> set columns1" using Cons.prems(1) by simp
  from col_map_step_within[OF assms(1) this Cons.prems(2)]
  have "\<forall>p \<in> set (col_map_step W columns2 col cm). pairing_within columns1 columns2 p" .
  moreover have "set cols \<subseteq> set columns1" using Cons.prems(1) by simp
  ultimately show ?case using Cons.IH by simp
qed

lemma build_col_map_within:
  assumes "widgets_ok W"
  shows "\<forall>p \<in> set (build_col_map W columns1 columns2). pairing_within columns1 columns2 p"
  unfolding build_col_map_def
  by (rule fold_col_map_step_within[OF assms]) simp_all

lemma comparisons_append:
  "comparisons L row1 row2 (pre @ rest) =
     (case comparisons L row1 row2 pre of
        Inl e \<Rightarrow> Inl e
      | Inr cs \<Rightarrow> (case comparisons L row1 row2 rest of Inl e \<Rightarrow> Inl e | Inr ds \<Rightarrow> Inr (cs @ ds)))"
proof (induction pre)
  case Nil
  then show ?case by (simp split: sum.splits)
next
  case (Cons p pre)
  obtain col1 col2 col_type fuzzy where p: "p = (col1, col2, col_type, fuzzy)" by (cases p) auto
  show ?case unfolding p using Cons.IH by (simp split: sum.splits)
qed

lemma comparisons_missing_column:
  assumes "col1 \<notin> fst ` set row1 \<or> col2 \<notin> fst ` set row2"
  shows "comparisons L row1 row2 ((col1, col2, col_type, fuzzy) # cm) = Inl KeyError"
proof (cases "col1 \<in> fst ` set row1")
  case False
  then show ?thesis by (simp add: getitem_absent)
next
  case True
  then obtain v where "getitem row1 col1 = Inr v" using getitem_present by blast
  moreover have "getitem row2 col2 = Inl KeyError" using assms True by (simp add: getitem_absent)
  ultimately show ?thesis by simp
qed

lemma run_missing_column:
  assumes "comparisons L row1 row2 pre = Inr cs"
    and "col1 \<notin> fst ` set row1 \<or> col2 \<notin> fst ` set row2"
  shows "run_comparison L (row1 # df1) (row2 # df2) (pre @ (col1, col2, col_type, fuzzy) # cm)
           = Inl KeyError"
proof -
  have "comparisons L row1 row2 (pre @ (col1, col2, col_type, fuzzy) # cm) = Inl KeyError"
    unfolding comparisons_append assms(1) comparisons_missing_column[OF assms(2)] by simp
  then have "all_matched L row1 row2 (pre @ (col1, col2, col_type, fuzzy) # cm) = Inl KeyError"
    by (simp add: all_matched_def)
  then show ?thesis by (simp add: run_comparison_def)
qed

lemma widgets_example_ok: "widgets_ok widgets_example"
  by (simp add: widgets_ok_def widgets_example_def)

lemma build_col_map_example:
  "build_col_map widgets_example [''name'', ''day''] [''who'', ''date''] = [(''name'', ''who'', ''Text'', False)]"
  by (simp add: build_col_map_def col_map_step_def widgets_example_def)

subsection \<open>Flat rows\<close>

lemma update_fresh: "k \<notin> fst ` set al \<Longrightarrow> AList.update k v al = al @ [(k, v)]"
  by (induction al) auto

lemma add_columns_fresh:
  assumes "distinct (map fst data)" "\<forall>k \<in> fst ` set data. prefix @ k \<notin> fst ` set row"
  shows "add_columns prefix data row = row @ map (\<lambda>(k, v). (prefix @ k, Cell v)) data"
  using assms
proof (induction data arbitrary: row)
  case Nil
  then show ?case by (simp add: add_columns_def)
next
  case (Cons p data)
  obtain k v where p: "p = (k, v)" by (cases p)
  have f: "prefix @ k \<notin> fst ` set row" using Cons.prems(2) p by simp
  have d: "distinct (map fst data)" and kn: "k \<notin> fst ` set data" using Cons.prems(1) p by auto
  have "\<forall>k' \<in> fst ` set data. prefix @ k' \<notin> fst ` set (row @ [(prefix @ k, Cell v)])"
  proof
    fix k' assume k': "k' \<in> fst ` set data"
    then have "prefix @ k' \<notin> fst ` set row" using Cons.prems(2) by force
    moreover have "k' \<noteq> k" using k' kn by blast
    ultimately show "prefix @ k' \<notin> fst ` set (row @ [(prefix @ k, Cell v)])" by auto
  qed
  from Cons.IH[OF d this]
  have "add_columns prefix data (row @ [(prefix @ k, Cell v)])
      = (row @ [(prefix @ k, Cell v)]) @ map (\<lambda>(k, v). (prefix @ k, Cell v)) data" .
  moreover have "add_columns prefix (p # data) row
      = add_columns prefix data (AList.update (prefix @ k) (Cell v) row)"
    by (simp add: add_columns_def p)
  ultimately show ?case using update_fresh[OF f] by (simp add: p)
qed

lemma flat_row_keys_without_Index:
  assumes "distinct (map fst (Excel1_Data r))" "''Index'' \<notin> fst ` set (Excel1_Data r)"
    and "Excel2_Match r = Some m" "distinct (map fst m)"
  shows "flat_row r =
      [(''Excel1_Index'', Index (Excel1_Index r)), (''Matched'', Indicator (Matched r))]
      @ map (\<lambda>(k, v). (''Excel1_'' @ k, Cell v)) (Excel1_Data r)
      @ map (\<lambda>(k, v). (''Excel2_'' @ k, Cell v)) m"
    and "distinct (map fst (flat_row r))"
proof -
  let ?row0 = "[(''Excel1_Index'', Index (Excel1_Index r)), (''Matched'', Indicator (Matched r))]"
  let ?l = "map (\<lambda>(k, v). (''Excel1_'' @ k, Cell v)) (Excel1_Data r)"
  let ?r = "map (\<lambda>(k, v). (''Excel2_'' @ k, Cell v)) m"
  have 1: "add_columns ''Excel1_'' (Excel1_Data r) ?row0 = ?row0 @ ?l"
    by (rule add_columns_fresh[OF assms(1)]) (use assms(2) in force)
  have kl: "fst ` set ?l = (\<lambda>k. ''Excel1_'' @ k) ` fst ` set (Excel1_Data r)" by force
  have 2: "add_columns ''Excel2_'' m (?row0 @ ?l) = (?row0 @ ?l) @ ?r"
    by (rule add_columns_fresh[OF assms(4)]) (auto simp: kl)
  show e: "flat_row r = ?row0 @ ?l @ ?r"
    using 1 2 assms(3) by (cases "m = []") (simp_all add: flat_row_def Let_def)
  have ml: "map fst ?l = map (\<lambda>k. ''Excel1_'' @ k) (map fst (Excel1_Data r))" by (simp add: case_prod_unfold)
  have mr: "map fst ?r = map (\<lambda>k. ''Excel2_'' @ k) (map fst m)" by (simp add: case_prod_unfold)
  have dl: "distinct (map fst ?l)" unfolding ml using assms(1) by (simp add: distinct_map inj_on_def)
  have dr: "distinct (map fst ?r)" unfolding mr using assms(4) by (simp add: distinct_map inj_on_def)
  have "set (map fst ?l) \<inter> set (map fst ?r) = {}" unfolding ml mr by auto
  moreover have "''Excel1_Index'' \<notin> set (map fst ?l)" unfolding ml using assms(2) by auto
  moreover have "''Excel1_Index'' \<notin> set (map fst ?r)" unfolding mr by auto
  moreover have "''Matched'' \<notin> set (map fst ?l)" unfolding ml by auto
  moreover have "''Matched'' \<notin> set (map fst ?r)" unfolding mr by auto
  ultimately show "distinct (map fst (flat_row r))"
    unfolding e using dl dr by (simp del: map_map)
qed

subsection \<open>Dates at the ends of the range\<close>

lemma wide_parse_max:
  "to_datetime wide_lib ''9999-12-31'' = Inr (Some \<lparr>ts_ordinal = MAXORDINAL, ts_nanos = 0\<rparr>)"
  by (simp add: wide_lib_def wide_to_datetime_def isdigit_def nat_of_digits_def days_in_month_def
      ymd2ord_max)

lemma wide_parse_2025:
  "to_datetime wide_lib ''2025-09-02'' = Inr (Some \<lparr>ts_ordinal = ymd2ord 2025 9 2, ts_nanos = 0\<rparr>)"
  by (simp add: wide_lib_def wide_to_datetime_def isdigit_def nat_of_digits_def days_in_month_def)

lemma wide_parse_year_0:
  "to_datetime wide_lib ''0000-01-01'' = Inr (Some \<lparr>ts_ordinal = - 365, ts_nanos = 0\<rparr>)"
  by (simp add: wide_lib_def wide_to_datetime_def isdigit_def nat_of_digits_def days_in_month_def
      ymd2ord_def days_before_year_def days_before_month_def)

lemma wide_clean_dates:
  "clean_date wide_lib (PStr ''9999-12-31'') = Inr (PDate (ymd2ord 9999 12 31))"
  "clean_date wide_lib (PStr ''2025-09-02'') = Inr (PDate (ymd2ord 2025 9 2))"
  "clean_date wide_lib (PStr ''0000-01-01'') = Inr PNone"
  by (simp_all add: clean_date_def clean_date_try_def timestamp_date_def wide_parse_max
      wide_parse_2025 wide_parse_year_0 ymd2ord_max MINORDINAL_def MAXORDINAL_def)
     (simp_all add: ymd2ord_def days_before_year_def days_before_month_def days_in_month_def
      is_leap_def upt_rec)

lemma compare_values_last_date:
  assumes "d1 \<noteq> MAXORDINAL"
  shows "compare_values L (PDate d1) (PDate MAXORDINAL) ''Date'' fuzzy = Inl OverflowError"
  using assms by (simp add: compare_values_def)

lemma compare_cells_last_date:
  "compare_cells wide_lib (PStr ''2025-09-02'') (PStr ''9999-12-31'') ''Date'' False
     = Inl OverflowError"
proof -
  have "ymd2ord 2025 9 2 \<noteq> MAXORDINAL"
    by (simp add: ymd2ord_def days_before_year_def days_before_month_def days_in_month_def
        MAXORDINAL_def is_leap_def upt_rec)
  then show ?thesis
    by (simp add: compare_cells_def wide_clean_dates ymd2ord_max compare_values_last_date)
qed

lemma clean_date_no_date:
  assumes "no_date L val"
  shows "clean_date L val = Inr PNone \<or> clean_date L val = Inr PNaT"
  using assms
  by (auto simp: no_date_def clean_date_def clean_date_try_def timestamp_date_def
      split: sum.splits option.splits)

lemma clean_date_value:
  "\<exists>v. clean_date L val = Inr v \<and>
     (isna L v \<or> (\<not> isna L val \<and> \<not> no_date L val
        \<and> (\<exists>ts. to_datetime L (py_str L val) = Inr (Some ts) \<and> v = PDate (ts_ordinal ts))))"
  by (auto simp: no_date_def clean_date_def clean_date_try_def timestamp_date_def
      split: sum.splits option.splits)

lemma clean_number_value:
  "\<exists>v. clean_number L val = Inr v \<and>
     (v = PNone \<or> (\<not> isna L val
        \<and> (\<exists>x. float_of_str L (strip (remove_commas (py_str L val))) = Inr x \<and> v = PFloat x)))"
  by (auto simp: clean_number_def clean_number_try_def split: sum.splits)

lemma no_date_examples:
  "no_date sample_lib (PStr ''garbage'')" "no_date wide_lib (PStr ''0000-01-01'')"
  by (simp_all add: no_date_def wide_parse_year_0 MINORDINAL_def)
     (simp add: sample_lib_def sample_to_datetime_def)

subsection \<open>Runs that end\<close>

lemma run_comparison_entries:
  "(\<forall>results. run_comparison L df1 df2 cm = Inr results \<longrightarrow>
       length results = length df1
       \<and> (\<forall>i < length df1. Excel1_Index (results ! i) = i \<and> Excel1_Data (results ! i) = df1 ! i))
   \<and> (dates_interior L \<and> columns_ok df1 df2 cm \<longrightarrow>
       (\<exists>results. run_comparison L df1 df2 cm = Inr results))"
proof (intro conjI allI impI)
  fix results assume "run_comparison L df1 df2 cm = Inr results"
  then show "length results = length df1"
    unfolding run_comparison_def by (rule run_rows_length)
next
  fix results i assume r: "run_comparison L df1 df2 cm = Inr results" and i: "i < length df1"
  from run_rows_nth[OF r[unfolded run_comparison_def] i]
  obtain m where "results ! i = entry (0 + i) (df1 ! i) m" by blast
  then show "Excel1_Index (results ! i) = i" "Excel1_Data (results ! i) = df1 ! i"
    by (simp_all add: entry_def)
next
  assume "dates_interior L \<and> columns_ok df1 df2 cm"
  then show "\<exists>results. run_comparison L df1 df2 cm = Inr results"
    unfolding run_comparison_def using run_rows_total by blast
qed

lemma run_comparison_entries_example:
  "dates_interior sample_lib \<and> columns_ok left_example right_example mapping_example
   \<and> (\<exists>results. run_comparison sample_lib left_example right_example mapping_example = Inr results
        \<and> length results = 2
        \<and> Excel1_Index (results ! 0) = 0 \<and> Excel1_Data (results ! 0) = left_example ! 0
        \<and> Excel1_Index (results ! 1) = 1 \<and> Excel1_Data (results ! 1) = left_example ! 1)"
proof -
  note t = run_comparison_entries [of sample_lib left_example right_example mapping_example]
  have h: "dates_interior sample_lib \<and> columns_ok left_example right_example mapping_example"
    using sample_lib_dates_interior columns_ok_example by blast
  with t obtain results
    where r: "run_comparison sample_lib left_example right_example mapping_example = Inr results"
    by blast
  have l: "length left_example = 2" by (simp add: left_example_def)
  from t r have "length results = length left_example
       \<and> (\<forall>i < length left_example. Excel1_Index (results ! i) = i
            \<and> Excel1_Data (results ! i) = left_example ! i)" by blast
  then have "length results = 2
        \<and> Excel1_Index (results ! 0) = 0 \<and> Excel1_Data (results ! 0) = left_example ! 0
        \<and> Excel1_Index (results ! 1) = 1 \<and> Excel1_Data (results ! 1) = left_example ! 1"
    unfolding l by simp
  with h r show ?thesis by blast
qed

subsection \<open>Case folding\<close>





section \<open>The claims\<close>

text \<open>
  C2. For every comparison type and every fuzzy flag, \<^verbatim>\<open>compare_values\<close> returns
  false when either value is missing (\<^verbatim>\<open>None\<close>, \<^verbatim>\<open>NaT\<close> or NaN), also when both
  are; and so does the comparison of two cells when either raw cell is missing, whatever
  the normalisation makes of the other.
\<close>

theorem compare_values_missing_is_false:
  assumes "isna L v1 \<or> isna L v2"
  shows "compare_values L v1 v2 col_type fuzzy = Inr False
       \<and> compare_cells L v1 v2 col_type fuzzy = Inr False"
proof
  show "compare_values L v1 v2 col_type fuzzy = Inr False"
    using assms by (rule compare_values_na)
next
  obtain a b where a: "clean_date L v1 = Inr a" "clean_date L v2 = Inr b"
    using clean_date_cases[of L v1] clean_date_cases[of L v2] by blast
  have ab: "isna L a \<or> isna L b" using assms a by (auto simp: clean_date_def)
  obtain c d where c: "clean_number L v1 = Inr c" "clean_number L v2 = Inr d"
    using clean_number_cases[of L v1] clean_number_cases[of L v2] by blast
  have cd: "isna L c \<or> isna L d" using assms c by (auto simp: clean_number_def)
  show "compare_cells L v1 v2 col_type fuzzy = Inr False"
    using assms by (simp add: compare_cells_def a c compare_values_na[OF ab] compare_values_na[OF cd]
        compare_values_na)
qed

theorem compare_values_missing_is_false_witness:
  "(isna sample_lib (PFloat None) \<or> isna sample_lib (PStr ''x''))
   \<and> compare_values sample_lib (PFloat None) (PStr ''x'') ''Text'' False = Inr False
   \<and> compare_cells sample_lib (PFloat None) (PStr ''x'') ''Text'' False = Inr False"
  using compare_values_missing_is_false [of sample_lib "PFloat None" "PStr ''x''" "''Text''" False]
  by (simp add: sample_lib_def)

text \<open>
  C4. On two dates \<^verbatim>\<open>compare_values\<close> with type \<^verbatim>\<open>"Date"\<close> should return false for
  dates two or more days apart. For the last representable date as second argument and
  any other first argument it raises \<^verbatim>\<open>OverflowError\<close> instead: the sum
  \<^verbatim>\<open>v2 + timedelta(days=1)\<close> is formed before the comparison and is not a date.
\<close>

theorem compare_values_date_max_raises:
  "compare_values L (PDate (ymd2ord 2025 9 2)) (PDate (ymd2ord 9999 12 31)) ''Date'' fuzzy
     = Inl OverflowError"
  by (simp add: compare_values_def ymd2ord_max)
     (simp add: ymd2ord_def days_before_year_def days_before_month_def days_in_month_def
        MAXORDINAL_def is_leap_def upt_rec)

text \<open>The two examples of the claim, and the first representable date, for comparison.\<close>

lemma compare_values_date_examples:
  "compare_values L (PDate (ymd2ord 2025 9 2)) (PDate (ymd2ord 2025 9 3)) ''Date'' fuzzy = Inr True"
  "compare_values L (PDate (ymd2ord 2025 9 2)) (PDate (ymd2ord 2025 9 4)) ''Date'' fuzzy = Inr False"
  by (simp_all add: compare_values_def ymd2ord_def days_before_year_def days_before_month_def
      days_in_month_def MAXORDINAL_def MINORDINAL_def is_leap_def upt_rec)

lemma compare_values_date_min_raises:
  "compare_values L (PDate (ymd2ord 2025 9 2)) (PDate (ymd2ord 1 1 1)) ''Date'' fuzzy
     = Inl OverflowError"
  by (simp add: compare_values_def ymd2ord_min)
     (simp add: ymd2ord_def days_before_year_def days_before_month_def days_in_month_def
        MAXORDINAL_def MINORDINAL_def is_leap_def upt_rec)

text \<open>
  C1. Every run should return one entry per Left row. A run over one Left row and one
  Right row, paired on a date column, returns nothing when the Right cell is the last
  date Python can represent and the Left cell another date: the comparison raises
  \<^verbatim>\<open>OverflowError\<close> and the exception leaves both loops. (A run that ends does return
  one entry per Left row, in order and numbered from 0, and a run ends whenever the
  library's dates lie strictly inside the range: lemma \<open>run_comparison_entries\<close>.)
\<close>

theorem run_aborts_on_last_date:
  "run_comparison wide_lib [[(''day'', PStr ''2025-09-02'')]] [[(''day'', PStr ''9999-12-31'')]]
     [(''day'', ''day'', ''Date'', False)] = Inl OverflowError"
  by (simp add: run_comparison_def all_matched_def getitem_def compare_cells_last_date)

text \<open>The mapping of this run names a column that both tables have.\<close>

lemma last_date_run_columns_ok:
  "columns_ok [[(''day'', PStr ''2025-09-02'')]] [[(''day'', PStr ''9999-12-31'' :: rat option pyval)]]
     [(''day'', ''day'', ''Date'', False)]"
  by (simp add: columns_ok_def pairing_ok_def)



text \<open>
  C7. With an empty mapping every pair of rows is a full match (the conjunction over no
  comparison is true), so every Left row is recorded as matched with the first row of
  the Right table.
\<close>

theorem empty_mapping_matches_first_right_row:
  "all_matched L row1 row2 [] = Inr True
   \<and> run_comparison L df1 (row0 # df2) []
       = Inr (map (\<lambda>(i, row1). entry i row1 (Some row0)) (enumerate 0 df1))"
  by (simp add: all_matched_def run_comparison_def run_rows_empty_mapping)

theorem empty_mapping_matches_first_right_row_witness:
  "run_comparison sample_lib [bob, r2] [r0, r1] []
     = Inr [\<lparr>Excel1_Index = 0, Excel1_Data = bob, Matched = True, Excel2_Match = Some r0\<rparr>,
            \<lparr>Excel1_Index = 1, Excel1_Data = r2, Matched = True, Excel2_Match = Some r0\<rparr>]"
  using empty_mapping_matches_first_right_row [of sample_lib bob r0 "[bob, r2]" r0 "[r1]"]
  by (simp add: entry_def)

text \<open>
  C5. For a cell that is not missing \<^verbatim>\<open>clean_number\<close> takes the string form of the
  cell, deletes every comma, trims the whitespace around what is left and hands that to
  \<^verbatim>\<open>float\<close>; a parse that raises gives \<^verbatim>\<open>None\<close>. The text handed over for
  \<^verbatim>\<open>500,00\<close> is \<^verbatim>\<open>50000\<close>, so the cell normalises to what \<^verbatim>\<open>50000\<close> does.
\<close>

theorem clean_number_strips_commas_then_parses:
  "(\<not> isna L val \<longrightarrow> clean_number L val =
      (case float_of_str L (strip (remove_commas (py_str L val))) of
         Inl e \<Rightarrow> Inr PNone | Inr x \<Rightarrow> Inr (PFloat x)))
   \<and> remove_commas s = filter (\<lambda>c. c \<noteq> CHR '','') s
   \<and> CHR '','' \<notin> set (strip (remove_commas s))
   \<and> trimmed (remove_commas s) (strip (remove_commas s))
   \<and> strip (remove_commas ''500,00'') = ''50000''
   \<and> clean_number L (PStr ''500,00'') = clean_number L (PStr ''50000'')
   \<and> (float_of_str L ''50000'' = Inr x \<longrightarrow> clean_number L (PStr ''500,00'') = Inr (PFloat x))"
proof (intro conjI impI)
  assume "\<not> isna L val"
  then show "clean_number L val =
      (case float_of_str L (strip (remove_commas (py_str L val))) of
         Inl e \<Rightarrow> Inr PNone | Inr x \<Rightarrow> Inr (PFloat x))" by (rule clean_number_not_missing)
next
  show "remove_commas s = filter (\<lambda>c. c \<noteq> CHR '','') s" by (simp add: remove_commas_def)
next
  show "CHR '','' \<notin> set (strip (remove_commas s))" using number_text_clean by blast
next
  show "trimmed (remove_commas s) (strip (remove_commas s))" by (rule trimmed_strip)
next
  show "strip (remove_commas ''500,00'') = ''50000''" by (rule number_text_example)
next
  have "strip (remove_commas ''50000'') = ''50000''"
    by (simp add: strip_def remove_commas_def isspace_def)
  then show "clean_number L (PStr ''500,00'') = clean_number L (PStr ''50000'')"
    using number_text_example by (simp add: clean_number_def clean_number_try_def)
next
  assume "float_of_str L ''50000'' = Inr x"
  then show "clean_number L (PStr ''500,00'') = Inr (PFloat x)"
    using number_text_example by (simp add: clean_number_def clean_number_try_def)
qed

theorem clean_number_strips_commas_then_parses_witness:
  "\<not> isna sample_lib (PStr ''500,00'')
   \<and> float_of_str sample_lib ''50000'' = Inr (Some 50000)
   \<and> clean_number sample_lib (PStr ''500,00'') = Inr (PFloat (Some 50000))
   \<and> clean_number sample_lib (PStr ''500,00'') \<noteq> Inr (PFloat (Some 500))
   \<and> clean_number sample_lib (PStr ''12x'') = Inr PNone"
proof -
  have f: "float_of_str sample_lib ''50000'' = Inr (Some 50000)"
    by (simp add: sample_lib_def sample_float_of_str_def isdigit_def nat_of_digits_def)
  have g: "float_of_str sample_lib (strip (remove_commas (py_str sample_lib (PStr ''12x'')))) = Inl ValueError"
    by (simp add: sample_lib_def sample_float_of_str_def isdigit_def nat_of_digits_def
        strip_def remove_commas_def isspace_def)
  have n: "\<not> isna sample_lib (PStr ''12x'')" by simp
  from clean_number_strips_commas_then_parses [of sample_lib "PStr ''500,00''" "''500,00''" "Some 50000"] f
  have a: "clean_number sample_lib (PStr ''500,00'') = Inr (PFloat (Some 50000))" by blast
  from clean_number_strips_commas_then_parses [of sample_lib "PStr ''12x''" "''12x''" "Some 50000"] n
  have "clean_number sample_lib (PStr ''12x'') =
      (case float_of_str sample_lib (strip (remove_commas (py_str sample_lib (PStr ''12x'')))) of
         Inl e \<Rightarrow> Inr PNone | Inr x \<Rightarrow> Inr (PFloat x))" by blast
  then have b: "clean_number sample_lib (PStr ''12x'') = Inr PNone" unfolding g by simp
  show ?thesis using a b f by simp
qed




text \<open>
  C8, as stated: a mapping that names a column the Left table does not have is rejected
  as an error before any row is scanned. It is not: with a Right table without rows the
  run ends normally.
\<close>

theorem missing_column_not_rejected:
  "''absent'' \<notin> fst ` set bob
   \<and> run_comparison sample_lib [bob] [] [(''absent'', ''who'', ''Text'', False)]
       = Inr [\<lparr>Excel1_Index = 0, Excel1_Data = bob, Matched = False, Excel2_Match = None\<rparr>]"
  by (simp add: bob_def run_comparison_def)

text \<open>
  C8, amended. The program does not check a mapping. The mapping it builds names only
  columns of the two tables, because the keys are the Left columns and each select box
  offers the Right columns. Given any mapping, a run over a table without rows ends
  normally; and when both tables have a row, a pairing that names a column missing from
  the first Left row or the first Right row raises \<^verbatim>\<open>KeyError\<close> when its cells are
  read, after the pairings before it have been compared.
\<close>

theorem mapping_columns_by_construction_not_by_rejection:
  "(widgets_ok W \<longrightarrow>
      (\<forall>p \<in> set (build_col_map W columns1 columns2). pairing_within columns1 columns2 p))
   \<and> run_comparison L df1 [] cm = Inr (map (\<lambda>(i, row1). entry i row1 None) (enumerate 0 df1))
   \<and> run_comparison L [] df2 cm = Inr []
   \<and> (comparisons L row1 row2 pre = Inr cs
        \<and> (col1 \<notin> fst ` set row1 \<or> col2 \<notin> fst ` set row2) \<longrightarrow>
      run_comparison L (row1 # df1) (row2 # df2) (pre @ (col1, col2, col_type, fuzzy) # cm)
        = Inl KeyError)"
proof (intro conjI impI)
  assume "widgets_ok W"
  then show "\<forall>p \<in> set (build_col_map W columns1 columns2). pairing_within columns1 columns2 p"
    by (rule build_col_map_within)
next
  show "run_comparison L df1 [] cm = Inr (map (\<lambda>(i, row1). entry i row1 None) (enumerate 0 df1))"
    by (rule empty_right_nothing_matches)
next
  show "run_comparison L [] df2 cm = Inr []" by (simp add: run_comparison_def)
next
  assume "comparisons L row1 row2 pre = Inr cs
        \<and> (col1 \<notin> fst ` set row1 \<or> col2 \<notin> fst ` set row2)"
  then show "run_comparison L (row1 # df1) (row2 # df2) (pre @ (col1, col2, col_type, fuzzy) # cm)
        = Inl KeyError" using run_missing_column by blast
qed

theorem mapping_columns_by_construction_not_by_rejection_witness:
  "widgets_ok widgets_example
   \<and> build_col_map widgets_example [''name'', ''day''] [''who'', ''date''] = [(''name'', ''who'', ''Text'', False)]
   \<and> pairing_within [''name'', ''day''] [''who'', ''date''] (''name'', ''who'', ''Text'', False)
   \<and> comparisons sample_lib bob r0 [(''name'', ''who'', ''Text'', False)] = Inr [False]
   \<and> ''absent'' \<notin> fst ` set bob
   \<and> run_comparison sample_lib [bob] [r0]
        ([(''name'', ''who'', ''Text'', False)] @ [(''absent'', ''who'', ''Text'', False)]) = Inl KeyError"
proof -
  note t = mapping_columns_by_construction_not_by_rejection
  have c: "comparisons sample_lib bob r0 [(''name'', ''who'', ''Text'', False)] = Inr [False]"
    by code_simp
  have a: "''absent'' \<notin> fst ` set bob" by (simp add: bob_def)
  from t [of widgets_example "[''name'', ''day'']" "[''who'', ''date'']"] widgets_example_ok
  have "\<forall>p \<in> set (build_col_map widgets_example [''name'', ''day''] [''who'', ''date'']).
          pairing_within [''name'', ''day''] [''who'', ''date''] p" by blast
  then have p: "pairing_within [''name'', ''day''] [''who'', ''date''] (''name'', ''who'', ''Text'', False)"
    unfolding build_col_map_example by simp
  from t [where L = sample_lib and ?row1.0 = bob and ?row2.0 = r0
        and pre = "[(''name'', ''who'', ''Text'', False)]" and cs = "[False]"
        and ?col1.0 = "''absent''" and ?col2.0 = "''who''" and ?df1.0 = "[]" and ?df2.0 = "[]"
        and col_type = "''Text''" and fuzzy = False and cm = "[]"] c a
  have "run_comparison sample_lib [bob] [r0]
        ([(''name'', ''who'', ''Text'', False)] @ [(''absent'', ''who'', ''Text'', False)]) = Inl KeyError"
    by blast
  then show ?thesis using widgets_example_ok build_col_map_example p c a by blast
qed

text \<open>
  C9. The flat row should keep the row number, the matched indicator and every column
  of the two rows under keys of their own. A Left column named \<^verbatim>\<open>Index\<close> is written
  under the key \<^verbatim>\<open>Excel1_Index\<close>, which already holds the row number: the cell replaces
  the row number, and the flat row has two keys for three fields.
\<close>

theorem flat_row_index_key_collision:
  "flat_row \<lparr>Excel1_Index = 0, Excel1_Data = [(''Index'', PStr ''x'')], Matched = False,
             Excel2_Match = None\<rparr>
     = [(''Excel1_Index'', Cell (PStr ''x'')), (''Matched'', Indicator False)]"
  by (simp add: flat_row_def add_columns_def)

text \<open>
  Without a Left column of that name (and with distinct labels in each row) the keys of a
  flat row are pairwise distinct: lemma \<open>flat_row_keys_without_Index\<close>.
\<close>

text \<open>
  C10. \<^verbatim>\<open>clean_date\<close> and \<^verbatim>\<open>clean_number\<close> return a value for every cell and
  never raise: the value is missing, or it is the date, respectively the float, that the
  library parsed. A missing cell gives \<^verbatim>\<open>None\<close>. A cell for which the library gives no
  date (the parse raises, or returns \<^verbatim>\<open>NaT\<close>, or \<^verbatim>\<open>.date()\<close> raises) and a cell
  whose number does not parse give a missing value, and the comparison of such a cell
  with any other cell is false, not an exception.
\<close>

theorem normalisers_never_raise:
  "(\<exists>v. clean_date L val = Inr v \<and>
      (isna L v \<or> (\<not> isna L val \<and> \<not> no_date L val
         \<and> (\<exists>ts. to_datetime L (py_str L val) = Inr (Some ts) \<and> v = PDate (ts_ordinal ts)))))
   \<and> (\<exists>v. clean_number L val = Inr v \<and>
      (v = PNone \<or> (\<not> isna L val
         \<and> (\<exists>x. float_of_str L (strip (remove_commas (py_str L val))) = Inr x \<and> v = PFloat x))))
   \<and> (isna L val \<longrightarrow> clean_date L val = Inr PNone \<and> clean_number L val = Inr PNone)
   \<and> (isna L val \<or> no_date L val \<longrightarrow>
        (\<exists>v. clean_date L val = Inr v \<and> isna L v)
        \<and> compare_cells L val other ''Date'' fuzzy = Inr False
        \<and> compare_cells L other val ''Date'' fuzzy = Inr False)
   \<and> (isna L val \<or> (\<exists>e. float_of_str L (strip (remove_commas (py_str L val))) = Inl e) \<longrightarrow>
        clean_number L val = Inr PNone
        \<and> compare_cells L val other ''Number'' fuzzy = Inr False
        \<and> compare_cells L other val ''Number'' fuzzy = Inr False)"
proof (intro conjI impI)
  show "\<exists>v. clean_date L val = Inr v \<and>
      (isna L v \<or> (\<not> isna L val \<and> \<not> no_date L val
         \<and> (\<exists>ts. to_datetime L (py_str L val) = Inr (Some ts) \<and> v = PDate (ts_ordinal ts))))"
    by (rule clean_date_value)
  show "\<exists>v. clean_number L val = Inr v \<and>
      (v = PNone \<or> (\<not> isna L val
         \<and> (\<exists>x. float_of_str L (strip (remove_commas (py_str L val))) = Inr x \<and> v = PFloat x)))"
    by (rule clean_number_value)
next
  assume "isna L val"
  then show "clean_date L val = Inr PNone" "clean_number L val = Inr PNone"
    by (simp_all add: clean_date_def clean_number_def)
next
  assume a: "isna L val \<or> no_date L val"
  have "clean_date L val = Inr PNone \<or> clean_date L val = Inr PNaT"
  proof (cases "isna L val")
    case True
    then show ?thesis by (simp add: clean_date_def)
  next
    case False
    with a show ?thesis using clean_date_no_date by blast
  qed
  then obtain v where v: "clean_date L val = Inr v" "isna L v" by auto
  then show "\<exists>v. clean_date L val = Inr v \<and> isna L v" by blast
  show "compare_cells L val other ''Date'' fuzzy = Inr False"
    using compare_cells_date_na(1)[OF v] .
  show "compare_cells L other val ''Date'' fuzzy = Inr False"
    using compare_cells_date_na(2)[OF v] .
next
  assume a: "isna L val \<or> (\<exists>e. float_of_str L (strip (remove_commas (py_str L val))) = Inl e)"
  then show n: "clean_number L val = Inr PNone"
    by (auto simp: clean_number_def clean_number_try_def)
  have i: "isna L (PNone :: 'a pyval)" by simp
  show "compare_cells L val other ''Number'' fuzzy = Inr False"
    using compare_cells_number_na(1)[OF n i] .
  show "compare_cells L other val ''Number'' fuzzy = Inr False"
    using compare_cells_number_na(2)[OF n i] .
qed

theorem normalisers_never_raise_witness:
  "no_date sample_lib (PStr ''garbage'')
   \<and> compare_cells sample_lib (PStr ''garbage'') (PStr ''2025-09-02'') ''Date'' False = Inr False
   \<and> compare_cells sample_lib (PStr ''2025-09-02'') (PStr ''garbage'') ''Date'' False = Inr False
   \<and> no_date wide_lib (PStr ''0000-01-01'')
   \<and> clean_date wide_lib (PStr ''0000-01-01'') = Inr PNone
   \<and> compare_cells wide_lib (PStr ''0000-01-01'') (PStr ''0000-01-01'') ''Date'' False = Inr False
   \<and> compare_cells wide_lib (PStr ''0000-01-01'') (PStr ''2025-09-02'') ''Date'' False = Inr False
   \<and> isna sample_lib (PFloat None)
   \<and> clean_date sample_lib (PFloat None) = Inr PNone
   \<and> clean_number sample_lib (PFloat None) = Inr PNone
   \<and> compare_cells sample_lib (PStr ''12x'') (PStr ''12'') ''Number'' False = Inr False"
proof -
  note t = normalisers_never_raise
  have m: "isna sample_lib (PFloat None)" by (simp add: sample_lib_def)
  have g: "float_of_str sample_lib (strip (remove_commas (py_str sample_lib (PStr ''12x'')))) = Inl ValueError"
    by (simp add: sample_lib_def sample_float_of_str_def isdigit_def nat_of_digits_def
        strip_def remove_commas_def isspace_def)
  from t [of sample_lib "PStr ''garbage''" "PStr ''2025-09-02''" False] no_date_examples(1)
  have 1: "compare_cells sample_lib (PStr ''garbage'') (PStr ''2025-09-02'') ''Date'' False = Inr False
      \<and> compare_cells sample_lib (PStr ''2025-09-02'') (PStr ''garbage'') ''Date'' False = Inr False"
    by blast
  from t [of wide_lib "PStr ''0000-01-01''" "PStr ''0000-01-01''" False] no_date_examples(2)
  have 2: "compare_cells wide_lib (PStr ''0000-01-01'') (PStr ''0000-01-01'') ''Date'' False = Inr False"
    by blast
  from t [of wide_lib "PStr ''0000-01-01''" "PStr ''2025-09-02''" False] no_date_examples(2)
  have 3: "compare_cells wide_lib (PStr ''0000-01-01'') (PStr ''2025-09-02'') ''Date'' False = Inr False"
    by blast
  from t [of sample_lib "PFloat None"] m
  have 4: "clean_date sample_lib (PFloat None) = Inr PNone
      \<and> clean_number sample_lib (PFloat None) = Inr PNone" by blast
  from t [of sample_lib "PStr ''12x''" "PStr ''12''" False] g
  have 5: "compare_cells sample_lib (PStr ''12x'') (PStr ''12'') ''Number'' False = Inr False"
    by blast
  show ?thesis using 1 2 3 4 5 m no_date_examples wide_clean_dates(3) by blast
qed

end
